theory Spec2Isabelle
  imports Main
begin

section \<open>FastLS: a path-addressed store over a flat key-value map\<close>

text \<open>
  A shallow embedding of the class \<open>FastLS\<close> (version 2, the file with quotas, folders and
  shortcuts) and of the nested accessors of version 1 (\<open>index.js\<close>).

  Conventions of the embedding.
  \<^item> A JavaScript string is a \<open>string\<close>: a list of 8-bit code units. The backslash, which
    the sources write \<open>'\\'\<close>, is \<open>CHR 0x5C\<close>.
  \<^item> A JavaScript value is a \<open>jsval\<close>: \<open>undefined\<close>, \<open>null\<close>, booleans, numbers with an integer
    payload (the sources never compute with a stored number, they only test it for
    truthiness), strings, arrays and plain objects. An object is the list of its own
    enumerable properties in insertion order, which is the order of \<open>Object.keys\<close> and
    \<open>Object.entries\<close> for keys that are not array indices. An array is the list of its
    elements; a hole reads as \<open>undefined\<close>. Function values and the members inherited from
    \<open>Object.prototype\<close> and \<open>Array.prototype\<close> are not part of the value type.
  \<^item> A \<open>throw\<close> is a result \<open>Inl e\<close>; a \<open>try/catch\<close> is a case distinction on the result.
  \<^item> The public methods build an \<open>async\<close> closure \<open>operation\<close> and, with \<open>useAsync\<close> set,
    return \<open>operation()\<close>. The functions \<open>get_operation\<close>, \<open>set_operation\<close>,
    \<open>remove_operation\<close> and \<open>keys_operation\<close> below are those closures, with the
    \<open>localStorage\<close> backend; every \<open>await\<close> is a sequential step. With \<open>useAsync\<close> unset the
    methods hand the closure to \<open>_executeSync\<close> instead; that path is not modelled.
\<close>

subsection \<open>Strings\<close>

definition backslash :: char where
  "backslash = CHR 0x5C"

text \<open>\<open>s.split(re)\<close> for a regular expression matching exactly one character, and
  \<open>s.split('.')\<close>: the pieces between the separators, empty pieces included.\<close>

fun split_where :: "(char \<Rightarrow> bool) \<Rightarrow> string \<Rightarrow> string list" where
  "split_where p [] = [[]]"
| "split_where p (c # cs) =
     (if p c then [] # split_where p cs
      else (case split_where p cs of [] \<Rightarrow> [[c]] | t # ts \<Rightarrow> (c # t) # ts))"

text \<open>\<open>parts.join(s)\<close>.\<close>

fun join :: "string \<Rightarrow> string list \<Rightarrow> string" where
  "join s [] = []"
| "join s [x] = x"
| "join s (x # y # ys) = x @ s @ join s (y # ys)"

text \<open>\<open>s.startsWith(p)\<close>.\<close>

definition startsWith :: "string \<Rightarrow> string \<Rightarrow> bool" where
  "startsWith s p \<longleftrightarrow> take (length p) s = p"

subsection \<open>Path normalisation (\<open>_normalizePath\<close>, \<open>_validatePath\<close>, \<open>_parseFullPath\<close>)\<close>

text \<open>The character class \<open>[\\/]\<close> of \<open>path.split(/[\\/]/)\<close>.\<close>

definition is_sep :: "char \<Rightarrow> bool" where
  "is_sep c \<longleftrightarrow> c = CHR 0x5C \<or> c = CHR ''/''"

text \<open>\<open>path.replace(/^[^:]+:/, '')\<close>: when the first colon of the path is not its first
  character, everything up to and including that colon is removed.\<close>

definition strip_flag :: "string \<Rightarrow> string" where
  "strip_flag path =
     (let pre = takeWhile (\<lambda>c. c \<noteq> CHR '':'') path
      in if pre \<noteq> [] \<and> length pre < length path then drop (length pre + 1) path else path)"

text \<open>The loop \<open>for (let part of parts)\<close> of \<open>_normalizePath\<close>; the first argument is the
  array \<open>normalized\<close>. \<open>normalized.pop()\<close> on an empty array does nothing, as \<open>butlast []\<close>.\<close>

fun normalize_parts :: "string list \<Rightarrow> string list \<Rightarrow> string list" where
  "normalize_parts normalized [] = normalized"
| "normalize_parts normalized (part # parts) =
     (if part = ''..'' then normalize_parts (butlast normalized) parts
      else if part = [] \<or> part = ''.'' then normalize_parts normalized parts
      else normalize_parts (normalized @ [part]) parts)"

definition normalizePath :: "string \<Rightarrow> string" where
  "normalizePath path =
     (if path = [] then []
      else join [backslash] (normalize_parts [] (split_where is_sep (strip_flag path))))"

datatype js_error =
    InvalidPathChars    \<comment> \<open>\<open>Error('Path cannot contain ":" or "\\" in key names')\<close>\<close>
  | InvalidPathDotDot   \<comment> \<open>\<open>Error('Path cannot be ".."')\<close>\<close>
  | TypeError           \<comment> \<open>a property access or assignment on a value that has none\<close>
  | Unrepresentable     \<comment> \<open>the source goes on with an array carrying a property that is not
                            an element; \<open>jsval\<close> has no such value\<close>

definition validatePath :: "string \<Rightarrow> js_error + unit" where
  "validatePath path =
     (if path \<noteq> [] \<and> (CHR '':'' \<in> set path \<or> backslash \<in> set path) then Inl InvalidPathChars
      else if path = ''..'' then Inl InvalidPathDotDot
      else Inr ())"

text \<open>\<open>fullPath.match(/^([^:]+):(.*)$/)\<close>: the first group cannot hold a colon, so the colon
  is the first one of the string and must not be its first character; \<open>.\<close> does not match a
  line terminator, so the rest must hold none.\<close>

definition line_terminator :: "char \<Rightarrow> bool" where
  "line_terminator c \<longleftrightarrow> c = CHR 0x0A \<or> c = CHR 0x0D"

definition dbMatch :: "string \<Rightarrow> (string \<times> string) option" where
  "dbMatch fullPath =
     (let pre = takeWhile (\<lambda>c. c \<noteq> CHR '':'') fullPath;
          rest = drop (length pre + 1) fullPath
      in if pre \<noteq> [] \<and> length pre < length fullPath \<and> \<not> (\<exists>c \<in> set rest. line_terminator c)
         then Some (pre, rest) else None)"

text \<open>\<open>_parseFullPath\<close> on a string: the pair \<open>{dbName, path}\<close>, \<open>dbName\<close> being \<open>null\<close> as
  \<open>None\<close>.\<close>

definition parseFullPath :: "string \<Rightarrow> string option \<times> string" where
  "parseFullPath fullPath =
     (case dbMatch fullPath of
        Some (dbName, rest) \<Rightarrow> (Some dbName, normalizePath rest)
      | None \<Rightarrow> (None, normalizePath fullPath))"

subsection \<open>Values\<close>

datatype jsval =
    JUndefined
  | JNull
  | JBool bool
  | JNum int
  | JStr string
  | JArr "jsval list"
  | JObj "(string \<times> jsval) list"

type_synonym entries = "(string \<times> jsval) list"

text \<open>The truthiness test of \<open>!x\<close>, \<open>x ? a : b\<close>, \<open>x && y\<close> and \<open>x || y\<close>.\<close>

fun truthy :: "jsval \<Rightarrow> bool" where
  "truthy JUndefined = False"
| "truthy JNull = False"
| "truthy (JBool b) = b"
| "truthy (JNum n) = (n \<noteq> 0)"
| "truthy (JStr s) = (s \<noteq> [])"
| "truthy (JArr xs) = True"
| "truthy (JObj kvs) = True"

text \<open>\<open>typeof x === 'object'\<close>, which holds of \<open>null\<close> too.\<close>

fun typeof_object :: "jsval \<Rightarrow> bool" where
  "typeof_object JNull = True"
| "typeof_object (JArr xs) = True"
| "typeof_object (JObj kvs) = True"
| "typeof_object x = False"

text \<open>\<open>Array.isArray(x)\<close>.\<close>

fun isArray :: "jsval \<Rightarrow> bool" where
  "isArray (JArr xs) = True"
| "isArray x = False"

fun elements :: "jsval \<Rightarrow> jsval list" where
  "elements (JArr xs) = xs"
| "elements x = []"

definition is_digit :: "char \<Rightarrow> bool" where
  "is_digit c \<longleftrightarrow> c \<in> set ''0123456789''"

definition digit_val :: "char \<Rightarrow> nat" where
  "digit_val c = of_char c - 48"

text \<open>\<open>parseInt\<close> of a string of decimal digits.\<close>

definition parseInt :: "string \<Rightarrow> nat" where
  "parseInt ds = foldl (\<lambda>n c. 10 * n + digit_val c) 0 ds"

text \<open>A property name is an array index when it is the canonical decimal form of a number:
  digits only, no leading zero.\<close>

definition is_index :: "string \<Rightarrow> bool" where
  "is_index k \<longleftrightarrow> k \<noteq> [] \<and> (\<forall>c \<in> set k. is_digit c) \<and> (k = ''0'' \<or> hd k \<noteq> CHR ''0'')"

text \<open>The decimal form of an index, for \<open>Object.keys\<close> of an array.\<close>

function digits_of :: "nat \<Rightarrow> string" where
  "digits_of n =
     (if n < 10 then [''0123456789'' ! n]
      else digits_of (n div 10) @ [''0123456789'' ! (n mod 10)])"
  by pat_completeness auto
termination
  by (relation "measure id") auto

text \<open>\<open>xs[i]\<close> on an array: \<open>undefined\<close> past the end.\<close>

definition element :: "jsval list \<Rightarrow> nat \<Rightarrow> jsval" where
  "element xs i = (if i < length xs then xs ! i else JUndefined)"

text \<open>\<open>o[k]\<close> and \<open>o[k] = v\<close> on the own properties of an object. An assignment to an
  existing key keeps its place; a new key goes last.\<close>

fun obj_get :: "entries \<Rightarrow> string \<Rightarrow> jsval" where
  "obj_get [] k = JUndefined"
| "obj_get ((k', x) # kvs) k = (if k' = k then x else obj_get kvs k)"

fun obj_put :: "entries \<Rightarrow> string \<Rightarrow> jsval \<Rightarrow> entries" where
  "obj_put [] k v = [(k, v)]"
| "obj_put ((k', x) # kvs) k v = (if k' = k then (k, v) # kvs else (k', x) # obj_put kvs k v)"

text \<open>The property read \<open>x[k]\<close>. It throws on \<open>null\<close> and \<open>undefined\<close>; a number or a boolean
  has no own property; a string has its characters and its length.\<close>

fun js_get :: "jsval \<Rightarrow> string \<Rightarrow> js_error + jsval" where
  "js_get JUndefined k = Inl TypeError"
| "js_get JNull k = Inl TypeError"
| "js_get (JBool b) k = Inr JUndefined"
| "js_get (JNum n) k = Inr JUndefined"
| "js_get (JStr s) k =
     Inr (if is_index k \<and> parseInt k < length s then JStr [s ! parseInt k]
          else if k = ''length'' then JNum (int (length s)) else JUndefined)"
| "js_get (JArr xs) k =
     Inr (if is_index k then element xs (parseInt k)
          else if k = ''length'' then JNum (int (length xs)) else JUndefined)"
| "js_get (JObj kvs) k = Inr (obj_get kvs k)"

text \<open>The assignment \<open>x[k] = v\<close> in strict code (a class body is strict): it throws on
  \<open>null\<close>, \<open>undefined\<close> and on every primitive. Writing an element past the end of an array
  leaves holes, which read as \<open>undefined\<close>. Writing a property of an array that is not an
  element is outside the value type.\<close>

fun js_put :: "jsval \<Rightarrow> string \<Rightarrow> jsval \<Rightarrow> js_error + jsval" where
  "js_put (JObj kvs) k v = Inr (JObj (obj_put kvs k v))"
| "js_put (JArr xs) k v =
     (if is_index k
      then Inr (JArr ((xs @ replicate (parseInt k + 1 - length xs) JUndefined)[parseInt k := v]))
      else Inl Unrepresentable)"
| "js_put x k v = Inl TypeError"

text \<open>\<open>Object.keys(x)\<close> and \<open>Object.entries(x)\<close>: they throw on \<open>null\<close> and \<open>undefined\<close>.\<close>

fun object_entries :: "jsval \<Rightarrow> js_error + entries" where
  "object_entries JUndefined = Inl TypeError"
| "object_entries JNull = Inl TypeError"
| "object_entries (JObj kvs) = Inr kvs"
| "object_entries (JArr xs) = Inr (zip (map digits_of [0..<length xs]) xs)"
| "object_entries (JStr s) = Inr (zip (map digits_of [0..<length s]) (map (\<lambda>c. JStr [c]) s))"
| "object_entries x = Inr []"

definition object_keys :: "jsval \<Rightarrow> js_error + string list" where
  "object_keys x = (case object_entries x of Inl e \<Rightarrow> Inl e | Inr kvs \<Rightarrow> Inr (map fst kvs))"

text \<open>\<open>s.toLowerCase()\<close> on 8-bit code units: the capitals A to Z and the Latin-1 capitals
  \<open>0xC0\<close> to \<open>0xDE\<close> (without \<open>0xD7\<close>, the multiplication sign) move up by \<open>0x20\<close>.\<close>

definition lower_char :: "char \<Rightarrow> char" where
  "lower_char c =
     (case map_of (zip (''ABCDEFGHIJKLMNOPQRSTUVWXYZ'' @
                        [CHR 0xC0, CHR 0xC1, CHR 0xC2, CHR 0xC3, CHR 0xC4, CHR 0xC5, CHR 0xC6,
                         CHR 0xC7, CHR 0xC8, CHR 0xC9, CHR 0xCA, CHR 0xCB, CHR 0xCC, CHR 0xCD,
                         CHR 0xCE, CHR 0xCF, CHR 0xD0, CHR 0xD1, CHR 0xD2, CHR 0xD3, CHR 0xD4,
                         CHR 0xD5, CHR 0xD6, CHR 0xD8, CHR 0xD9, CHR 0xDA, CHR 0xDB, CHR 0xDC,
                         CHR 0xDD, CHR 0xDE])
                       (''abcdefghijklmnopqrstuvwxyz'' @
                        [CHR 0xE0, CHR 0xE1, CHR 0xE2, CHR 0xE3, CHR 0xE4, CHR 0xE5, CHR 0xE6,
                         CHR 0xE7, CHR 0xE8, CHR 0xE9, CHR 0xEA, CHR 0xEB, CHR 0xEC, CHR 0xED,
                         CHR 0xEE, CHR 0xEF, CHR 0xF0, CHR 0xF1, CHR 0xF2, CHR 0xF3, CHR 0xF4,
                         CHR 0xF5, CHR 0xF6, CHR 0xF8, CHR 0xF9, CHR 0xFA, CHR 0xFB, CHR 0xFC,
                         CHR 0xFD, CHR 0xFE])) c of
        Some l \<Rightarrow> l
      | None \<Rightarrow> c)"

definition toLowerCase :: "string \<Rightarrow> string" where
  "toLowerCase s = map lower_char s"


subsection \<open>The array pattern \<open>/(\w+)\[(\d+)\]/\<close>\<close>

definition is_word_char :: "char \<Rightarrow> bool" where
  "is_word_char c \<longleftrightarrow>
     c \<in> set ''abcdefghijklmnopqrstuvwxyzABCDEFGHIJKLMNOPQRSTUVWXYZ0123456789_''"

text \<open>A match of the pattern that starts at the first character of \<open>s\<close>. \<open>\w+\<close> is greedy and
  the next pattern character \<open>[\<close> is not a word character, so only the whole run of word
  characters can be followed by it; likewise the run of digits before \<open>]\<close>.\<close>

definition match_at :: "string \<Rightarrow> (string \<times> string) option" where
  "match_at s =
     (let w = takeWhile is_word_char s
      in if w = [] then None
         else (case dropWhile is_word_char s of
                 [] \<Rightarrow> None
               | c # r \<Rightarrow>
                   if c \<noteq> CHR ''['' then None
                   else (let d = takeWhile is_digit r
                         in if d = [] then None
                            else (case dropWhile is_digit r of
                                    [] \<Rightarrow> None
                                  | c' # r' \<Rightarrow> if c' = CHR '']'' then Some (w, d) else None))))"

text \<open>\<open>key.match(/(\w+)\[(\d+)\]/)\<close>: the pattern is not anchored, so the leftmost match
  anywhere in the key counts. The result holds the two groups.\<close>

fun arrayMatch :: "string \<Rightarrow> (string \<times> string) option" where
  "arrayMatch [] = None"
| "arrayMatch (c # cs) =
     (case match_at (c # cs) of Some m \<Rightarrow> Some m | None \<Rightarrow> arrayMatch cs)"

definition is_dot :: "char \<Rightarrow> bool" where
  "is_dot c \<longleftrightarrow> c = CHR ''.''"

subsection \<open>Nested access (\<open>_getValueByPath\<close>, \<open>_setValueByPath\<close>)\<close>

text \<open>The key under which a plain segment is read or written. With \<open>caseSen\<close> unset and
  \<open>typeof current === 'object'\<close>, it is the first key of \<open>Object.keys(current)\<close> that equals
  the segment up to case. The flag says whether such a key was found and is truthy
  (\<open>foundKey ? ... : ...\<close>, \<open>foundKey || key\<close>).\<close>

definition find_key :: "jsval \<Rightarrow> string \<Rightarrow> js_error + string option" where
  "find_key current key =
     (case object_keys current of
        Inl e \<Rightarrow> Inl e
      | Inr ks \<Rightarrow> Inr (find (\<lambda>k. toLowerCase k = toLowerCase key) ks))"

text \<open>One round of the loop of \<open>_getValueByPath\<close> after its guard: the next value of
  \<open>current\<close>. Both \<open>return undefined\<close> of the array branch and \<open>current = undefined; break\<close>
  end the function with \<open>undefined\<close>, so the round yields \<open>JUndefined\<close> for them.\<close>

definition get_step :: "bool \<Rightarrow> jsval \<Rightarrow> string \<Rightarrow> js_error + jsval" where
  "get_step caseSen current key =
     (case arrayMatch key of
        Some (arrayName, ds) \<Rightarrow>
          (case js_get current arrayName of
             Inl e \<Rightarrow> Inl e
           | Inr a \<Rightarrow> if truthy a \<and> isArray a then Inr (element (elements a) (parseInt ds))
                      else Inr JUndefined)
      | None \<Rightarrow>
          if \<not> caseSen \<and> typeof_object current
          then (case find_key current key of
                  Inl e \<Rightarrow> Inl e
                | Inr None \<Rightarrow> Inr JUndefined
                | Inr (Some foundKey) \<Rightarrow>
                    if foundKey \<noteq> [] then js_get current foundKey else Inr JUndefined)
          else js_get current key)"

fun get_walk :: "bool \<Rightarrow> jsval \<Rightarrow> string list \<Rightarrow> js_error + jsval" where
  "get_walk caseSen current [] = Inr current"
| "get_walk caseSen current (key # keys) =
     (if current = JNull \<or> current = JUndefined \<or> \<not> typeof_object current then Inr JUndefined
      else (case get_step caseSen current key of
              Inl e \<Rightarrow> Inl e
            | Inr next \<Rightarrow> if next = JUndefined then Inr JUndefined
                          else get_walk caseSen next keys))"

definition getValueByPath :: "bool \<Rightarrow> jsval \<Rightarrow> string \<Rightarrow> js_error + jsval" where
  "getValueByPath caseSen obj path =
     (if path = [] \<or> \<not> truthy obj then Inr obj
      else get_walk caseSen obj (split_where is_dot path))"




text \<open>\<open>actualKey\<close> of \<open>_setValueByPath\<close>: \<open>foundKey || key\<close>.\<close>

definition actual_key :: "bool \<Rightarrow> jsval \<Rightarrow> string \<Rightarrow> js_error + string" where
  "actual_key caseSen current key =
     (if \<not> caseSen \<and> typeof_object current
      then (case find_key current key of
              Inl e \<Rightarrow> Inl e
            | Inr None \<Rightarrow> Inr key
            | Inr (Some foundKey) \<Rightarrow> Inr (if foundKey \<noteq> [] then foundKey else key))
      else Inr key)"

text \<open>The array \<open>current[arrayName]\<close> made ready for index \<open>index\<close>: replaced by \<open>[]\<close> unless
  it is an array already, then filled up with \<open>filler\<close>. The result is \<open>current\<close> after the
  possible assignment, and the elements.\<close>

definition ensure_array ::
  "jsval \<Rightarrow> string \<Rightarrow> nat \<Rightarrow> jsval \<Rightarrow> js_error + (jsval \<times> jsval list)" where
  "ensure_array current arrayName index filler =
     (case js_get current arrayName of
        Inl e \<Rightarrow> Inl e
      | Inr a \<Rightarrow>
          (case (if \<not> truthy a \<or> \<not> isArray a then js_put current arrayName (JArr [])
                 else Inr current) of
             Inl e \<Rightarrow> Inl e
           | Inr current1 \<Rightarrow>
               let xs = (if \<not> truthy a \<or> \<not> isArray a then [] else elements a)
               in Inr (current1, xs @ replicate (index + 1 - length xs) filler)))"

text \<open>The object \<open>current[actualKey]\<close> made ready to be descended into: replaced by \<open>{}\<close>
  when it is \<open>null\<close>, \<open>undefined\<close> or not of type object.\<close>

definition ensure_object :: "jsval \<Rightarrow> string \<Rightarrow> js_error + (jsval \<times> jsval)" where
  "ensure_object current actualKey =
     (case js_get current actualKey of
        Inl e \<Rightarrow> Inl e
      | Inr x \<Rightarrow>
          if x = JNull \<or> x = JUndefined \<or> \<not> typeof_object x
          then (case js_put current actualKey (JObj []) of
                  Inl e \<Rightarrow> Inl e
                | Inr current1 \<Rightarrow> Inr (current1, JObj []))
          else Inr (current, x))"

text \<open>The loop of \<open>_setValueByPath\<close> and the assignment after it. The source moves the
  reference \<open>current\<close> down the tree and mutates in place; here each round returns the
  updated value of \<open>current\<close>, which the round above stores back under the same key. The
  list of keys comes from \<open>split\<close> and is never empty.\<close>

fun set_walk :: "bool \<Rightarrow> jsval \<Rightarrow> string list \<Rightarrow> jsval \<Rightarrow> js_error + jsval" where
  "set_walk caseSen current [] v = Inr current"
| "set_walk caseSen current [lastKey] v =
     (case arrayMatch lastKey of
        Some (arrayName, ds) \<Rightarrow>
          (case ensure_array current arrayName (parseInt ds) JUndefined of
             Inl e \<Rightarrow> Inl e
           | Inr (current1, xs) \<Rightarrow> js_put current1 arrayName (JArr (xs[parseInt ds := v])))
      | None \<Rightarrow>
          (case actual_key caseSen current lastKey of
             Inl e \<Rightarrow> Inl e
           | Inr actualKey \<Rightarrow> js_put current actualKey v))"
| "set_walk caseSen current (key # keys) v =
     (case arrayMatch key of
        Some (arrayName, ds) \<Rightarrow>
          (case ensure_array current arrayName (parseInt ds) (JObj []) of
             Inl e \<Rightarrow> Inl e
           | Inr (current1, xs) \<Rightarrow>
               (case set_walk caseSen (xs ! parseInt ds) keys v of
                  Inl e \<Rightarrow> Inl e
                | Inr child \<Rightarrow> js_put current1 arrayName (JArr (xs[parseInt ds := child]))))
      | None \<Rightarrow>
          (case actual_key caseSen current key of
             Inl e \<Rightarrow> Inl e
           | Inr actualKey \<Rightarrow>
               (case ensure_object current actualKey of
                  Inl e \<Rightarrow> Inl e
                | Inr (current1, x) \<Rightarrow>
                    (case set_walk caseSen x keys v of
                       Inl e \<Rightarrow> Inl e
                     | Inr child \<Rightarrow> js_put current1 actualKey child))))"

text \<open>\<open>_setValueByPath\<close>: the walk starts from \<open>obj || {}\<close>, and the function returns \<open>obj\<close>.\<close>

definition setValueByPath :: "bool \<Rightarrow> jsval \<Rightarrow> string \<Rightarrow> jsval \<Rightarrow> js_error + jsval" where
  "setValueByPath caseSen obj path v =
     (if path = [] then Inr v
      else (case set_walk caseSen (if truthy obj then obj else JObj []) (split_where is_dot path) v of
              Inl e \<Rightarrow> Inl e
            | Inr r \<Rightarrow> Inr (if truthy obj then r else obj)))"

subsection \<open>Quotas (\<open>_calculateFolderSize\<close>, \<open>_checkQuotaBeforeSet\<close>)\<close>

text \<open>The fields of an instance that the operations read or write. \<open>folderQuotas\<close> is a
  \<open>Map\<close>, iterated in insertion order. \<open>quotaMessage\<close> is \<open>null\<close> (\<open>None\<close>) or one of three
  strings. A budget is a number of bytes.\<close>

datatype quota_message = StoredNull | CannotSave | Meet

record fastls =
  dbName :: string
  caseSen :: bool
  quota :: "int option"
  folderQuotas :: "(string \<times> int) list"
  quotaMessage :: "quota_message option"

text \<open>The object that \<open>_checkQuotaBeforeSet\<close> returns: \<open>{allowed: true, storeNull: b}\<close> is
  \<open>Allowed b\<close>, and \<open>{allowed: false}\<close> is \<open>Rejected\<close>.\<close>

datatype quota_check = Allowed bool | Rejected

text \<open>The functions of the quota check only add and compare sizes, so they take the size
  function \<open>_calculateSize\<close> as a parameter \<open>sz\<close>; the theorems hold for every size function.
  \<open>calculateSize\<close> is \<open>_calculateSize\<close> with \<open>gzipped\<close> unset: the byte length of \<open>JSON.stringify(data)\<close> in
  UTF-8. A quote or a backslash is escaped to two bytes, a control character to two or six,
  a code unit from \<open>0x80\<close> on takes two bytes. In an object a property whose value is
  \<open>undefined\<close> is left out; in an array \<open>undefined\<close> is written \<open>null\<close>; \<open>undefined\<close> itself
  gives the text \<open>undefined\<close> in the \<open>Blob\<close>. Numbers are written in decimal digits, which is their
  JSON text for integers of at most 21 digits.\<close>

definition char_size :: "char \<Rightarrow> nat" where
  "char_size c =
     (if c = CHR 0x22 \<or> c = CHR 0x5C then 2
      else if c \<in> set [CHR 0x08, CHR 0x09, CHR 0x0A, CHR 0x0C, CHR 0x0D] then 2
      else if (of_char c :: nat) < 32 then 6
      else if (of_char c :: nat) < 128 then 1
      else 2)"

definition string_size :: "string \<Rightarrow> nat" where
  "string_size s = 2 + sum_list (map char_size s)"

definition number_size :: "int \<Rightarrow> nat" where
  "number_size n = (if n < 0 then 1 + length (digits_of (nat (- n))) else length (digits_of (nat n)))"

fun json_size :: "jsval \<Rightarrow> nat" where
  "json_size JUndefined = 4"
| "json_size JNull = 4"
| "json_size (JBool b) = (if b then 4 else 5)"
| "json_size (JNum n) = number_size n"
| "json_size (JStr s) = string_size s"
| "json_size (JArr xs) = 2 + sum_list (map json_size xs) + (length xs - 1)"
| "json_size (JObj kvs) =
     2 + sum_list (map (\<lambda>(k, x). string_size k + 1 + json_size x)
                       (filter (\<lambda>(k, x). x \<noteq> JUndefined) kvs))
       + (length (filter (\<lambda>(k, x). x \<noteq> JUndefined) kvs) - 1)"

definition calculateSize :: "jsval \<Rightarrow> nat" where
  "calculateSize x = (if x = JUndefined then 9 else json_size x)"


definition in_folder :: "string \<Rightarrow> string \<Rightarrow> bool" where
  "in_folder key folderPath \<longleftrightarrow> startsWith key (folderPath @ [backslash]) \<or> key = folderPath"

definition calculateFolderSize :: "(jsval \<Rightarrow> nat) \<Rightarrow> jsval \<Rightarrow> string \<Rightarrow> js_error + nat" where
  "calculateFolderSize sz db folderPath =
     (case object_entries db of
        Inl e \<Rightarrow> Inl e
      | Inr kvs \<Rightarrow>
          Inr (foldl (\<lambda>totalSize (key, x). if in_folder key folderPath then totalSize + sz x
                                            else totalSize) 0 kvs))"

text \<open>\<open>db[path] ? this._calculateSize(db[path]) : 0\<close>.\<close>

definition currentPathSize :: "(jsval \<Rightarrow> nat) \<Rightarrow> jsval \<Rightarrow> string \<Rightarrow> js_error + nat" where
  "currentPathSize sz db path =
     (case js_get db path of
        Inl e \<Rightarrow> Inl e
      | Inr old \<Rightarrow> Inr (if truthy old then sz old else 0))"

text \<open>The loop over \<open>this.folderQuotas.entries()\<close>. \<open>Some\<close> is a \<open>return\<close> from inside the
  loop, with the message it has set; \<open>None\<close> is the end of the loop, by \<open>break\<close> at the first
  folder that holds the path or by running out of folders.\<close>

fun folder_check ::
  "(jsval \<Rightarrow> nat) \<Rightarrow> (string \<times> int) list \<Rightarrow> jsval \<Rightarrow> string \<Rightarrow> jsval
     \<Rightarrow> js_error + (quota_check \<times> quota_message) option" where
  "folder_check sz [] db path v = Inr None"
| "folder_check sz ((folderPath, q) # rest) db path v =
     (if in_folder path folderPath
      then (case calculateFolderSize sz db folderPath of
              Inl e \<Rightarrow> Inl e
            | Inr currentFolderSize \<Rightarrow>
                (case currentPathSize sz db path of
                   Inl e \<Rightarrow> Inl e
                 | Inr old \<Rightarrow>
                     let newValueSize = int (sz v);
                         projectedSize = int currentFolderSize - int old + newValueSize
                     in if projectedSize > q
                        then (if newValueSize \<le> q then Inr (Some (Allowed True, StoredNull))
                              else Inr (Some (Rejected, CannotSave)))
                        else Inr None))
      else folder_check sz rest db path v)"

text \<open>The block \<open>if (this.quota !== null)\<close>, for the budget \<open>q\<close>, up to the final
  \<open>return { allowed: true, storeNull: false }\<close>.\<close>

definition global_check ::
  "(jsval \<Rightarrow> nat) \<Rightarrow> int \<Rightarrow> jsval \<Rightarrow> string \<Rightarrow> jsval
     \<Rightarrow> js_error + (quota_check \<times> quota_message option)" where
  "global_check sz q db path v =
     (case currentPathSize sz db path of
        Inl e \<Rightarrow> Inl e
      | Inr old \<Rightarrow>
          let newValueSize = int (sz v);
              projectedSize = int (sz db) - int old + newValueSize
          in if projectedSize > q
             then (if newValueSize \<le> q then Inr (Allowed True, Some StoredNull)
                   else Inr (Rejected, Some CannotSave))
             else if projectedSize = q then Inr (Allowed False, Some Meet)
             else Inr (Allowed False, None))"

text \<open>\<open>_checkQuotaBeforeSet\<close>: the returned object and the value left in
  \<open>this.quotaMessage\<close>, which the function sets to \<open>null\<close> first.\<close>

definition checkQuotaBeforeSet ::
  "(jsval \<Rightarrow> nat) \<Rightarrow> fastls \<Rightarrow> jsval \<Rightarrow> string \<Rightarrow> jsval
     \<Rightarrow> js_error + (quota_check \<times> quota_message option)" where
  "checkQuotaBeforeSet sz this db path v =
     (case folder_check sz (folderQuotas this) db path v of
        Inl e \<Rightarrow> Inl e
      | Inr (Some (r, m)) \<Rightarrow> Inr (r, Some m)
      | Inr None \<Rightarrow>
          (case quota this of
             None \<Rightarrow> Inr (Allowed False, None)
           | Some q \<Rightarrow> global_check sz q db path v))"

subsection \<open>Folder deletion (\<open>_deleteFolder\<close> and its siblings, \<open>remove\<close>)\<close>

text \<open>Each strategy builds \<open>newDB\<close> from \<open>{}\<close> in a loop over \<open>Object.entries(db)\<close>.\<close>

definition deleteFolder :: "entries \<Rightarrow> string \<Rightarrow> entries" where
  "deleteFolder db folderPath =
     foldl (\<lambda>newDB (key, x).
              if \<not> startsWith key (folderPath @ [backslash]) \<and> key \<noteq> folderPath
              then obj_put newDB key x else newDB) [] db"

text \<open>\<open>key.substring(folderPath.length + 1).includes('\\')\<close>.\<close>

definition deeper :: "string \<Rightarrow> string \<Rightarrow> bool" where
  "deeper key folderPath \<longleftrightarrow> backslash \<in> set (drop (length folderPath + 1) key)"

definition deleteRootKeys :: "entries \<Rightarrow> string \<Rightarrow> entries" where
  "deleteRootKeys db folderPath =
     foldl (\<lambda>newDB (key, x).
              if \<not> startsWith key (folderPath @ [backslash])
                 \<or> (startsWith key (folderPath @ [backslash]) \<and> \<not> deeper key folderPath)
              then obj_put newDB key x else newDB) [] db"

definition deleteFolderContents :: "entries \<Rightarrow> string \<Rightarrow> entries" where
  "deleteFolderContents db folderPath =
     foldl (\<lambda>newDB (key, x).
              if startsWith key (folderPath @ [backslash]) \<or> key = folderPath
              then obj_put newDB key (JObj []) else obj_put newDB key x) [] db"

definition deleteNestedFolders :: "entries \<Rightarrow> string \<Rightarrow> entries" where
  "deleteNestedFolders db folderPath =
     foldl (\<lambda>newDB (key, x).
              if \<not> startsWith key (folderPath @ [backslash])
                 \<or> (startsWith key (folderPath @ [backslash]) \<and> \<not> deeper key folderPath)
              then obj_put newDB key x else newDB) [] db"

text \<open>The loop of \<open>remove\<close> over the pairs \<open>(path, operation)\<close>, on \<open>updatedDB\<close>. A path is
  \<open>null\<close> (\<open>None\<close>) or a string. The result \<open>None\<close> is the \<open>return null\<close> of the operation
  \<open>'database'\<close>, which drops the database and leaves the loop.\<close>

fun remove_loop :: "entries \<Rightarrow> (string option \<times> string) list \<Rightarrow> entries option" where
  "remove_loop updatedDB [] = Some updatedDB"
| "remove_loop updatedDB ((path, operation) # rest) =
     (if path = None \<and> operation = ''database'' then None
      else if (path = None \<or> path = Some [] \<or> path = Some [backslash])
              \<and> operation = ''databaseKeys''
      then remove_loop [] rest
      else
        let normalizedPath = (case path of None \<Rightarrow> [] | Some p \<Rightarrow> normalizePath p)
        in if operation = ''folder'' then remove_loop (deleteFolder updatedDB normalizedPath) rest
           else if operation = ''root''
           then remove_loop (deleteRootKeys updatedDB normalizedPath) rest
           else if operation = ''structure''
           then remove_loop (deleteFolderContents updatedDB normalizedPath) rest
           else if operation = ''nestedFolders''
           then remove_loop (deleteNestedFolders updatedDB normalizedPath) rest
           else remove_loop updatedDB rest)"

subsection \<open>The store and the operations\<close>

text \<open>The state of the backend is the object kept under the \<open>localStorage\<close> key \<open>fastLS\<close>:
  database name to database. It is held as the tree that \<open>_getRoot\<close> decodes;
  \<open>_serializeData\<close> and \<open>_deserializeData\<close> are taken as inverse to each other, and
  \<open>localStorage.setItem\<close> as succeeding, so that \<open>_saveRoot\<close> returns \<open>null\<close>.\<close>

type_synonym storage = entries

text \<open>\<open>_getDatabase\<close>: \<open>root[this.dbName] || {}\<close>.\<close>

definition getDatabase :: "string \<Rightarrow> storage \<Rightarrow> jsval" where
  "getDatabase name root = (if truthy (obj_get root name) then obj_get root name else JObj [])"

text \<open>\<open>_saveDatabase\<close>: \<open>root[this.dbName] = db\<close>, then \<open>_saveRoot(root)\<close>.\<close>

definition saveDatabase :: "string \<Rightarrow> jsval \<Rightarrow> storage \<Rightarrow> storage" where
  "saveDatabase name db root = obj_put root name db"

text \<open>\<open>_initLocalStorage\<close>, which the constructor runs.\<close>

definition initLocalStorage :: "string \<Rightarrow> storage \<Rightarrow> storage" where
  "initLocalStorage name root =
     (if \<not> truthy (obj_get root name) then obj_put root name (JObj []) else root)"

text \<open>\<open>targetDB\<close>: the instance itself, or \<open>new FastLS(dbName, ...)\<close> when the path names
  another database; the constructor then initialises that database in the store.\<close>

definition targetDB :: "string \<Rightarrow> string option \<Rightarrow> storage \<Rightarrow> string \<times> storage" where
  "targetDB thisName dbn root =
     (case dbn of
        None \<Rightarrow> (thisName, root)
      | Some n \<Rightarrow> if n \<noteq> [] \<and> n \<noteq> thisName then (n, initLocalStorage n root)
                  else (thisName, root))"

text \<open>What the closure of \<open>set\<close> resolves to: \<open>error.message\<close> from the \<open>catch\<close>, the rejected
  \<open>quotaCheck\<close>, or \<open>{saveResult, quotaCheck, quotaMessage}\<close> with \<open>saveResult\<close> \<open>null\<close>.\<close>

datatype set_result =
    SetThrew js_error
  | SetRejected
  | SetDone quota_check "quota_message option"

definition set_operation ::
  "(jsval \<Rightarrow> nat) \<Rightarrow> fastls \<Rightarrow> storage \<Rightarrow> string \<Rightarrow> jsval
     \<Rightarrow> set_result \<times> fastls \<times> storage" where
  "set_operation sz this root fullPath v =
     (case parseFullPath fullPath of
        (dbn, path) \<Rightarrow>
          (case (if path \<noteq> [] then validatePath path else Inr ()) of
             Inl e \<Rightarrow> (SetThrew e, this, root)
           | Inr u \<Rightarrow>
               (case targetDB (dbName this) dbn root of
                  (target, root1) \<Rightarrow>
                    let db = getDatabase target root1
                    in (case checkQuotaBeforeSet sz this db path v of
                          Inl e \<Rightarrow> (SetThrew e, this\<lparr>quotaMessage := None\<rparr>, root1)
                        | Inr (Rejected, msg) \<Rightarrow>
                            (SetRejected, this\<lparr>quotaMessage := msg\<rparr>, root1)
                        | Inr (Allowed storeNull, msg) \<Rightarrow>
                            (case setValueByPath (caseSen this) db path
                                    (if storeNull then JNull else v) of
                               Inl e \<Rightarrow> (SetThrew e, this\<lparr>quotaMessage := msg\<rparr>, root1)
                             | Inr updatedDB \<Rightarrow>
                                 (SetDone (Allowed storeNull) msg, this\<lparr>quotaMessage := msg\<rparr>,
                                  saveDatabase target updatedDB root1))))))"

text \<open>\<open>setShortcut\<close> stores the sentinel object.\<close>

definition shortcut_key :: string where
  "shortcut_key = ''__fastls_exception_shortcut''"

definition setShortcut ::
  "(jsval \<Rightarrow> nat) \<Rightarrow> fastls \<Rightarrow> storage \<Rightarrow> string \<Rightarrow> string
     \<Rightarrow> set_result \<times> fastls \<times> storage" where
  "setShortcut sz this root shortcutName targetPath =
     set_operation sz this root shortcutName (JObj [(shortcut_key, JStr targetPath)])"

text \<open>\<open>_parseFullPath\<close> on any value: \<open>typeof fullPath !== 'string'\<close> gives the empty path.\<close>

fun parseFullPath_val :: "jsval \<Rightarrow> string option \<times> string" where
  "parseFullPath_val (JStr s) = parseFullPath s"
| "parseFullPath_val x = (None, [])"

text \<open>\<open>directValue && directValue.__fastls_exception_shortcut\<close>.\<close>

definition shortcut_of :: "jsval \<Rightarrow> js_error + jsval" where
  "shortcut_of directValue =
     (if truthy directValue then js_get directValue shortcut_key else Inr directValue)"

text \<open>The closure of \<open>get\<close>, for the instance with the given \<open>caseSen\<close> and \<open>dbName\<close>. It
  calls \<open>targetDB.get\<close> on the target of a shortcut, so it need not return: \<open>None\<close> is a call
  that never resolves. The \<open>catch\<close> turns every error into \<open>undefined\<close>. The store is part
  of the result because constructing \<open>targetDB\<close> may write to it.\<close>

partial_function (option) get_operation ::
  "bool \<Rightarrow> string \<Rightarrow> storage \<Rightarrow> jsval \<Rightarrow> (jsval \<times> storage) option" where
  "get_operation cs name root fullPath =
     (case parseFullPath_val fullPath of
        (dbn, path) \<Rightarrow>
          (case targetDB name dbn root of
             (target, root1) \<Rightarrow>
               (case js_get (getDatabase target root1) path of
                  Inl e \<Rightarrow> Some (JUndefined, root1)
                | Inr directValue \<Rightarrow>
                    (case shortcut_of directValue of
                       Inl e \<Rightarrow> Some (JUndefined, root1)
                     | Inr sc \<Rightarrow>
                         if truthy sc then get_operation cs target root1 sc
                         else (case getValueByPath cs (getDatabase target root1) path of
                                 Inl e \<Rightarrow> Some (JUndefined, root1)
                               | Inr r \<Rightarrow> Some (r, root1))))))"


text \<open>The closure of \<open>remove\<close>: the loop runs on the copy \<open>{ ...db }\<close>; the operation
  \<open>'database'\<close> deletes \<open>root[this.dbName]\<close>, every other run ends with \<open>_saveDatabase\<close>.\<close>

definition remove_operation ::
  "string \<Rightarrow> storage \<Rightarrow> (string option \<times> string) list \<Rightarrow> storage" where
  "remove_operation name root operations =
     (case remove_loop (case object_entries (getDatabase name root) of
                          Inl e \<Rightarrow> [] | Inr kvs \<Rightarrow> kvs) operations of
        None \<Rightarrow> filter (\<lambda>(k, x). k \<noteq> name) root
      | Some updatedDB \<Rightarrow> saveDatabase name (JObj updatedDB) root)"

subsection \<open>Example data\<close>

text \<open>A flat map with the four keys of the folder example.\<close>

definition example_db :: entries where
  "example_db = [(''a'', JNum 1), (''a'' @ backslash # ''b'', JNum 2),
                 (''a'' @ backslash # ''b'' @ backslash # ''c'', JNum 3),
                 (''a'' @ backslash # ''d'', JNum 4)]"

text \<open>An instance with the given budgets, and a store, for the examples.\<close>

definition quota_instance :: "int option \<Rightarrow> (string \<times> int) list \<Rightarrow> fastls" where
  "quota_instance q fq =
     \<lparr>dbName = ''app'', caseSen = True, quota = q, folderQuotas = fq, quotaMessage = None\<rparr>"


text \<open>An instance without quotas and with \<open>caseSen\<close> unset; the store after its
  \<open>set('User', {Name: 'A'})\<close>; a store with the shortcuts \<open>x \<rightarrow> y\<close> and \<open>y \<rightarrow> x\<close>; and a store
  with the chain \<open>a \<rightarrow> b \<rightarrow> c\<close>, \<open>c = 42\<close>.\<close>

definition ci_instance :: fastls where
  "ci_instance =
     \<lparr>dbName = ''app'', caseSen = False, quota = None, folderQuotas = [], quotaMessage = None\<rparr>"


definition cyclic_root :: storage where
  "cyclic_root = [(''app'', JObj [(''x'', JObj [(shortcut_key, JStr ''y'')]),
                                  (''y'', JObj [(shortcut_key, JStr ''x'')])])]"

definition chain_root :: storage where
  "chain_root = [(''app'', JObj [(''a'', JObj [(shortcut_key, JStr ''b'')]),
                                 (''b'', JObj [(shortcut_key, JStr ''c'')]),
                                 (''c'', JNum 42)])]"

section \<open>Properties\<close>

subsection \<open>Normalisation\<close>













subsection \<open>Folder deletion\<close>

lemma keys_obj_put: "fst ` set (obj_put kvs k v) = insert k (fst ` set kvs)"
proof (induction kvs)
  case Nil
  then show ?case by simp
next
  case (Cons kv kvs)
  obtain k' x where kv: "kv = (k', x)" by (cases kv)
  show ?case
  proof (cases "k' = k")
    case True
    then show ?thesis unfolding kv by simp
  next
    case False
    then show ?thesis unfolding kv using Cons.IH by (simp add: insert_commute)
  qed
qed

lemma keys_foldl_put:
  "fst ` set (foldl (\<lambda>newDB (key, x). if keep key then obj_put newDB key (f key x)
                                         else newDB) acc db)
     = fst ` set acc \<union> {k \<in> fst ` set db. keep k}"
proof (induction db arbitrary: acc)
  case Nil
  then show ?case by simp
next
  case (Cons kv db)
  obtain k x where kv: "kv = (k, x)" by (cases kv)
  show ?case
    unfolding kv by (auto simp: Cons.IH keys_obj_put)
qed

lemma keys_deleteFolder:
  "fst ` set (deleteFolder db f)
     = {k \<in> fst ` set db. \<not> startsWith k (f @ [backslash]) \<and> k \<noteq> f}"
  unfolding deleteFolder_def
  using keys_foldl_put [of "\<lambda>k. \<not> startsWith k (f @ [backslash]) \<and> k \<noteq> f" "\<lambda>k x. x" "[]" db]
  by simp

lemma keys_deleteNestedFolders:
  "fst ` set (deleteNestedFolders db f)
     = {k \<in> fst ` set db. \<not> startsWith k (f @ [backslash])
          \<or> (startsWith k (f @ [backslash]) \<and> \<not> deeper k f)}"
  unfolding deleteNestedFolders_def
  using keys_foldl_put [of "\<lambda>k. \<not> startsWith k (f @ [backslash])
          \<or> (startsWith k (f @ [backslash]) \<and> \<not> deeper k f)" "\<lambda>k x. x" "[]" db]
  by simp

lemma keys_deleteFolderContents:
  "fst ` set (deleteFolderContents db f) = fst ` set db"
proof -
  have eq: "(\<lambda>newDB (key, x). if startsWith key (f @ [backslash]) \<or> key = f
              then obj_put newDB key (JObj []) else obj_put newDB key x)
    = (\<lambda>newDB (key, x). if True then obj_put newDB key
             (if startsWith key (f @ [backslash]) \<or> key = f then JObj [] else x) else newDB)"
    by (auto simp: fun_eq_iff)
  show ?thesis
    unfolding deleteFolderContents_def eq
    using keys_foldl_put [of "\<lambda>k. True"
        "\<lambda>k x. if startsWith k (f @ [backslash]) \<or> k = f then JObj [] else x" "[]" db]
    by simp
qed

lemma set_obj_put: "set (obj_put kvs k v) \<subseteq> insert (k, v) (set kvs)"
  by (induction kvs) (auto split: if_splits)

lemma values_deleteFolderContents_aux:
  "\<forall>kv \<in> set acc. in_folder (fst kv) f \<longrightarrow> snd kv = JObj [] \<Longrightarrow>
   \<forall>kv \<in> set (foldl (\<lambda>newDB (key, x). if startsWith key (f @ [backslash]) \<or> key = f
              then obj_put newDB key (JObj []) else obj_put newDB key x) acc db).
      in_folder (fst kv) f \<longrightarrow> snd kv = JObj []"
proof (induction db arbitrary: acc)
  case Nil
  then show ?case by simp
next
  case (Cons kv db)
  obtain k x where kv: "kv = (k, x)" by (cases kv)
  show ?case
    unfolding kv
    apply simp
    apply (intro conjI impI Cons.IH)
    using Cons.prems set_obj_put [of acc k "JObj []"] set_obj_put [of acc k x]
    by (auto simp: in_folder_def)
qed

lemma values_deleteFolderContents:
  "\<forall>kv \<in> set (deleteFolderContents db f). in_folder (fst kv) f \<longrightarrow> snd kv = JObj []"
  unfolding deleteFolderContents_def
  by (rule values_deleteFolderContents_aux) simp

lemma normalizePath_a: "normalizePath ''a'' = ''a''"
  by (simp add: normalizePath_def strip_flag_def is_sep_def)

lemma remove_loop_single:
  "remove_loop db [(Some ''a'', ''folder'')] = Some (deleteFolder db ''a'')"
  "remove_loop db [(Some ''a'', ''root'')] = Some (deleteRootKeys db ''a'')"
  "remove_loop db [(Some ''a'', ''structure'')] = Some (deleteFolderContents db ''a'')"
  "remove_loop db [(Some ''a'', ''nestedFolders'')] = Some (deleteNestedFolders db ''a'')"
  by (simp_all add: normalizePath_a)

text \<open>
  Claim C1, as the code has it. For every flat map with the keys \<open>a\<close>, \<open>a\b\<close>, \<open>a\b\c\<close> and
  \<open>a\d\<close> and the folder \<open>a\<close>: \<open>'folder'\<close> leaves the empty map; \<open>'nestedFolders'\<close> leaves
  exactly \<open>a\<close>, \<open>a\b\<close> and \<open>a\d\<close> (the key equal to the folder does not start with the
  folder and a separator, so it is kept); \<open>'structure'\<close> keeps the four keys, each with
  the value \<open>{}\<close>.
\<close>

theorem folder_strategies_on_example_keys:
  assumes "fst ` set db = {''a'', ''a'' @ backslash # ''b'',
             ''a'' @ backslash # ''b'' @ backslash # ''c'', ''a'' @ backslash # ''d''}"
  shows "remove_loop db [(Some ''a'', ''folder'')] = Some []
    \<and> remove_loop db [(Some ''a'', ''nestedFolders'')] = Some (deleteNestedFolders db ''a'')
    \<and> fst ` set (deleteNestedFolders db ''a'')
          = {''a'', ''a'' @ backslash # ''b'', ''a'' @ backslash # ''d''}
    \<and> remove_loop db [(Some ''a'', ''structure'')] = Some (deleteFolderContents db ''a'')
    \<and> fst ` set (deleteFolderContents db ''a'') = fst ` set db
    \<and> (\<forall>kv \<in> set (deleteFolderContents db ''a''). snd kv = JObj [])"
proof -
  have "fst ` set (deleteFolder db ''a'') = {}"
    unfolding keys_deleteFolder assms by (auto simp: startsWith_def backslash_def)
  then have folder: "deleteFolder db ''a'' = []"
    by simp
  have nested: "fst ` set (deleteNestedFolders db ''a'')
      = {''a'', ''a'' @ backslash # ''b'', ''a'' @ backslash # ''d''}"
    unfolding keys_deleteNestedFolders assms
    by (auto simp: startsWith_def backslash_def deeper_def)
  have "\<forall>kv \<in> set (deleteFolderContents db ''a''). in_folder (fst kv) ''a''"
  proof
    fix kv assume "kv \<in> set (deleteFolderContents db ''a'')"
    then have "fst kv \<in> fst ` set db"
      using keys_deleteFolderContents [of db "''a''"] by (metis imageI)
    then show "in_folder (fst kv) ''a''"
      unfolding assms by (auto simp: in_folder_def startsWith_def)
  qed
  then have contents: "\<forall>kv \<in> set (deleteFolderContents db ''a''). snd kv = JObj []"
    using values_deleteFolderContents [of db "''a''"] by blast
  show ?thesis
    using folder nested contents keys_deleteFolderContents [of db "''a''"]
    by (simp add: normalizePath_a)
qed

theorem folder_strategies_on_example_keys_witness:
  "fst ` set example_db = {''a'', ''a'' @ backslash # ''b'',
             ''a'' @ backslash # ''b'' @ backslash # ''c'', ''a'' @ backslash # ''d''}
   \<and> remove_loop example_db [(Some ''a'', ''folder'')] = Some []
   \<and> fst ` set (deleteNestedFolders example_db ''a'')
          = {''a'', ''a'' @ backslash # ''b'', ''a'' @ backslash # ''d''}
   \<and> deleteFolderContents example_db ''a''
        = [(''a'', JObj []), (''a'' @ backslash # ''b'', JObj []),
           (''a'' @ backslash # ''b'' @ backslash # ''c'', JObj []),
           (''a'' @ backslash # ''d'', JObj [])]"
  using folder_strategies_on_example_keys [of example_db]
  by (simp add: example_db_def deleteFolderContents_def startsWith_def backslash_def)

text \<open>
  Claim C1 as stated fails: on the example map, \<open>'root'\<close> does not leave exactly \<open>a\b\c\<close> and
  \<open>'nestedFolders'\<close> does not leave exactly \<open>a\b\<close> and \<open>a\d\<close>; both leave \<open>a\<close>, \<open>a\b\<close>, \<open>a\d\<close>.
\<close>

theorem root_and_nestedFolders_counterexample:
  "fst ` set (deleteRootKeys example_db ''a'')
      \<noteq> {''a'' @ backslash # ''b'' @ backslash # ''c''}
   \<and> fst ` set (deleteNestedFolders example_db ''a'')
      \<noteq> {''a'' @ backslash # ''b'', ''a'' @ backslash # ''d''}"
proof -
  have r: "map fst (deleteRootKeys example_db ''a'')
      = [''a'', ''a'' @ backslash # ''b'', ''a'' @ backslash # ''d'']"
    by (simp add: example_db_def deleteRootKeys_def startsWith_def backslash_def deeper_def)
  have n: "map fst (deleteNestedFolders example_db ''a'')
      = [''a'', ''a'' @ backslash # ''b'', ''a'' @ backslash # ''d'']"
    by (simp add: example_db_def deleteNestedFolders_def startsWith_def backslash_def deeper_def)
  have ne1: "''a'' \<notin> {''a'' @ backslash # ''b'' @ backslash # ''c''}"
    and ne2: "''a'' \<notin> {''a'' @ backslash # ''b'', ''a'' @ backslash # ''d''}"
    by simp_all
  have in1: "''a'' \<in> set (map fst (deleteRootKeys example_db ''a''))"
    and in2: "''a'' \<in> set (map fst (deleteNestedFolders example_db ''a''))"
    unfolding r n by simp_all
  have "fst ` set (deleteRootKeys example_db ''a'')
      \<noteq> {''a'' @ backslash # ''b'' @ backslash # ''c''}"
    using in1 ne1 by (metis set_map)
  moreover have "fst ` set (deleteNestedFolders example_db ''a'')
      \<noteq> {''a'' @ backslash # ''b'', ''a'' @ backslash # ''d''}"
    using in2 ne2 by (metis set_map)
  ultimately show ?thesis
    by (rule conjI)
qed

text \<open>The strategies through the closure of \<open>remove\<close>, on a store that holds the example
  map.\<close>

lemma remove_operation_on_example:
  "remove_operation ''app'' [(''app'', JObj example_db)] [(Some ''a'', ''folder'')]
     = [(''app'', JObj [])]
   \<and> remove_operation ''app'' [(''app'', JObj example_db)] [(Some ''a'', ''root'')]
     = [(''app'', JObj [(''a'', JNum 1), (''a'' @ backslash # ''b'', JNum 2),
                        (''a'' @ backslash # ''d'', JNum 4)])]
   \<and> remove_operation ''app'' [(''app'', JObj example_db)] [(None, ''database'')] = []"
  by (simp add: remove_operation_def getDatabase_def example_db_def normalizePath_a
      deleteFolder_def deleteRootKeys_def startsWith_def backslash_def deeper_def
      saveDatabase_def)

subsection \<open>Quotas\<close>

lemma folder_check_skip:
  "\<forall>fq \<in> set before. \<not> in_folder path (fst fq) \<Longrightarrow>
   folder_check sz (before @ rest) db path v = folder_check sz rest db path v"
  by (induction before) auto

lemma folder_check_first:
  assumes "in_folder path folderPath"
    and "calculateFolderSize sz db folderPath = Inr F"
    and "currentPathSize sz db path = Inr old"
  shows "folder_check sz ((folderPath, q) # rest) db path v =
     (if int F - int old + int (sz v) > q
      then (if int (sz v) \<le> q then Inr (Some (Allowed True, StoredNull))
            else Inr (Some (Rejected, CannotSave)))
      else Inr None)"
  using assms by (simp add: Let_def)

text \<open>
  Claim C4, as the code has it. Let \<open>folderPath\<close> be the first folder of \<open>folderQuotas\<close>
  that holds the path, with budget \<open>q\<close>. If the projected folder size exceeds \<open>q\<close>, the check
  returns from the folder branch (\<open>storedNull\<close> or \<open>cannotSave\<close>) and the global quota plays no
  part. If the write fits the folder budget, the loop is left by \<open>break\<close> and the global
  quota, when one is set, is applied to the write as well.
\<close>

theorem folder_quota_then_global:
  assumes "folderQuotas this = before @ (folderPath, q) # rest"
    and "\<forall>fq \<in> set before. \<not> in_folder path (fst fq)"
    and "in_folder path folderPath"
    and "calculateFolderSize sz db folderPath = Inr F"
    and "currentPathSize sz db path = Inr old"
  shows "(int F - int old + int (sz v) > q \<longrightarrow>
            checkQuotaBeforeSet sz this db path v =
              (if int (sz v) \<le> q then Inr (Allowed True, Some StoredNull)
               else Inr (Rejected, Some CannotSave)))
       \<and> (int F - int old + int (sz v) \<le> q \<longrightarrow>
            checkQuotaBeforeSet sz this db path v =
              (case quota this of
                 None \<Rightarrow> Inr (Allowed False, None)
               | Some g \<Rightarrow> global_check sz g db path v))"
proof -
  have "folder_check sz (folderQuotas this) db path v =
     (if int F - int old + int (sz v) > q
      then (if int (sz v) \<le> q then Inr (Some (Allowed True, StoredNull))
            else Inr (Some (Rejected, CannotSave)))
      else Inr None)"
    unfolding assms(1) folder_check_skip [OF assms(2)]
    by (rule folder_check_first [OF assms(3-5)])
  then show ?thesis
    by (simp add: checkQuotaBeforeSet_def)
qed

theorem folder_quota_then_global_witness:
  "in_folder ''f'' ''f''
   \<and> calculateFolderSize calculateSize (JObj []) ''f'' = Inr 0
   \<and> currentPathSize calculateSize (JObj []) ''f'' = Inr 0
   \<and> int 0 - int 0 + int (calculateSize (JStr ''0123456789'')) \<le> 100
   \<and> checkQuotaBeforeSet calculateSize (quota_instance (Some 5) [(''f'', 100)]) (JObj []) ''f''
        (JStr ''0123456789'')
      = global_check calculateSize 5 (JObj []) ''f'' (JStr ''0123456789'')
   \<and> int 0 - int 0 + int (calculateSize (JStr ''0123456789'')) > 10
   \<and> checkQuotaBeforeSet calculateSize (quota_instance (Some 500) [(''f'', 10)]) (JObj []) ''f''
        (JStr ''0123456789'')
      = Inr (Rejected, Some CannotSave)"
  using folder_quota_then_global [of "quota_instance (Some 5) [(''f'', 100)]" "[]" "''f''" 100 "[]"
      "''f''" calculateSize "JObj []" 0 0 "JStr ''0123456789''"]
    folder_quota_then_global [of "quota_instance (Some 500) [(''f'', 10)]" "[]" "''f''" 10 "[]"
      "''f''" calculateSize "JObj []" 0 0 "JStr ''0123456789''"]
  by (simp add: quota_instance_def in_folder_def calculateFolderSize_def currentPathSize_def
      calculateSize_def string_size_def char_size_def)

text \<open>
  Claim C4 as stated fails: the key \<open>f\<close> falls under the folder budget 100, the write of
  12 bytes fits it, and the global budget 5 still rejects the write; without the global
  budget the same write is allowed.
\<close>

theorem global_quota_applied_counterexample:
  "in_folder ''f'' ''f''
   \<and> checkQuotaBeforeSet calculateSize (quota_instance (Some 5) [(''f'', 100)]) (JObj []) ''f''
        (JStr ''0123456789'')
      = Inr (Rejected, Some CannotSave)
   \<and> checkQuotaBeforeSet calculateSize (quota_instance None [(''f'', 100)]) (JObj []) ''f''
        (JStr ''0123456789'')
      = Inr (Allowed False, None)"
  by (simp add: quota_instance_def in_folder_def calculateFolderSize_def currentPathSize_def
      calculateSize_def string_size_def char_size_def checkQuotaBeforeSet_def global_check_def)

text \<open>
  Claim C6 on the code. The write of 12 bytes into the empty folder \<open>f\<close> with the folder
  budget 12 makes the projected size equal to the budget, and \<open>quotaMessage\<close> stays \<open>null\<close>:
  the folder branch has no \<open>'meet'\<close> case. In the global branch a write that makes the
  projected size (2 bytes of \<open>{}\<close> and 12 of the value) equal to the budget 14 sets \<open>'meet'\<close>.
\<close>

theorem folder_quota_exact_fit_no_meet:
  "calculateFolderSize calculateSize (JObj []) ''f'' = Inr 0
   \<and> currentPathSize calculateSize (JObj []) ''f'' = Inr 0
   \<and> calculateSize (JStr ''0123456789'') = 12
   \<and> checkQuotaBeforeSet calculateSize (quota_instance None [(''f'', 12)]) (JObj []) ''f''
        (JStr ''0123456789'')
      = Inr (Allowed False, None)
   \<and> checkQuotaBeforeSet calculateSize (quota_instance (Some 14) []) (JObj []) ''f''
        (JStr ''0123456789'')
      = Inr (Allowed False, Some Meet)"
  by (simp add: quota_instance_def in_folder_def calculateFolderSize_def currentPathSize_def
      calculateSize_def string_size_def char_size_def checkQuotaBeforeSet_def global_check_def)













subsection \<open>Reading by path\<close>
















subsection \<open>Writing by path\<close>

text \<open>
  Claim C8 on the code. With the tree \<open>{a: [null]}\<close> and the path \<open>a[0].b\<close>, the intermediate
  \<open>a[0]\<close> is \<open>null\<close>; \<open>_setValueByPath\<close> does not replace it by a fresh container, it throws a
  \<open>TypeError\<close>, so there is no tree to read back. The same intermediate under a plain key
  (\<open>{a: null}\<close>, path \<open>a.b\<close>) is replaced by \<open>{}\<close> and the value reads back. With the tree
  \<open>null\<close> the write goes into a fresh object that is dropped: \<open>null\<close> is returned and read.
\<close>

theorem setValueByPath_null_element_throws:
  "setValueByPath cs (JObj [(''a'', JArr [JNull])]) ''a[0].b'' v = Inl TypeError
   \<and> setValueByPath cs (JObj [(''a'', JNull)]) ''a.b'' v = Inr (JObj [(''a'', JObj [(''b'', v)])])
   \<and> getValueByPath cs (JObj [(''a'', JObj [(''b'', v)])]) ''a.b'' = Inr v
   \<and> setValueByPath cs JNull ''a'' v = Inr JNull
   \<and> getValueByPath cs JNull ''a'' = Inr JNull"
  by (cases cs)
    (simp_all add: setValueByPath_def getValueByPath_def is_dot_def match_at_def is_word_char_def
      is_digit_def ensure_array_def ensure_object_def parseInt_def digit_val_def actual_key_def
      get_step_def find_key_def object_keys_def toLowerCase_def lower_char_def)

subsection \<open>Shortcuts\<close>



lemma parse_plain_keys:
  "parseFullPath ''x'' = (None, ''x'')" "parseFullPath ''y'' = (None, ''y'')"
  "parseFullPath ''a'' = (None, ''a'')" "parseFullPath ''b'' = (None, ''b'')"
  "parseFullPath ''c'' = (None, ''c'')"
  by (simp_all add: parseFullPath_def dbMatch_def normalizePath_def strip_flag_def is_sep_def)


text \<open>The store with the two shortcuts is what two calls of \<open>setShortcut\<close> leave.\<close>

lemma cyclic_root_by_setShortcut:
  "setShortcut sz ci_instance [(''app'', JObj [])] ''x'' ''y''
     = (SetDone (Allowed False) None, ci_instance,
        [(''app'', JObj [(''x'', JObj [(shortcut_key, JStr ''y'')])])])
   \<and> setShortcut sz ci_instance [(''app'', JObj [(''x'', JObj [(shortcut_key, JStr ''y'')])])]
        ''y'' ''x''
     = (SetDone (Allowed False) None, ci_instance, cyclic_root)"
  by (simp add: setShortcut_def set_operation_def parse_plain_keys validatePath_def backslash_def
      targetDB_def ci_instance_def getDatabase_def checkQuotaBeforeSet_def setValueByPath_def
      is_dot_def match_at_def is_word_char_def actual_key_def find_key_def object_keys_def
      saveDatabase_def cyclic_root_def toLowerCase_def lower_char_def)


lemma get_follows_shortcut_chain:
  "get_operation cs ''app'' chain_root (JStr ''a'') = Some (JNum 42, chain_root)"
  apply (subst get_operation.simps)
  apply (simp add: parse_plain_keys targetDB_def chain_root_def getDatabase_def shortcut_of_def
      shortcut_key_def)
  apply (subst get_operation.simps)
  apply (simp add: parse_plain_keys targetDB_def chain_root_def getDatabase_def shortcut_of_def
      shortcut_key_def)
  apply (subst get_operation.simps)
  apply (simp add: parse_plain_keys targetDB_def chain_root_def getDatabase_def shortcut_of_def
      shortcut_key_def getValueByPath_def is_dot_def match_at_def is_word_char_def
      get_step_def find_key_def object_keys_def toLowerCase_def lower_char_def)
  done

subsection \<open>Case-insensitive keys\<close>


subsection \<open>Path rejection\<close>


lemma parse_separator_paths:
  "parseFullPath (''a'' @ backslash # ''b'') = (None, ''a'' @ backslash # ''b'')"
  "parseFullPath ''a/b'' = (None, ''a'' @ backslash # ''b'')"
  "parseFullPath '':b'' = (None, '':b'')"
  "parseFullPath ''a:b'' = (Some ''a'', ''b'')"
  "parseFullPath ''..'' = (None, [])"
  by (simp_all add: parseFullPath_def dbMatch_def normalizePath_def strip_flag_def is_sep_def
      backslash_def line_terminator_def)




text \<open>
  The path \<open>..\<close> is not rejected either: it normalises to the empty path, for which \<open>set\<close>
  skips \<open>_validatePath\<close>, and \<open>_setValueByPath\<close> with the empty path returns the value, which
  is saved as the whole database.
\<close>

lemma set_dotdot_replaces_database:
  "set_operation sz ci_instance root ''..'' v
     = (SetDone (Allowed False) None, ci_instance, saveDatabase ''app'' v root)"
  by (simp add: set_operation_def parse_separator_paths targetDB_def ci_instance_def
      checkQuotaBeforeSet_def setValueByPath_def)

end
